theory Spec2Isabelle
  imports Complex_Main "HOL-Library.Multiset"
begin

section \<open>Python primitives used by the fusion service\<close>

text \<open>
  The fusion service (\<^verbatim>\<open>backend/app/services/fusion_service.py\<close>) is embedded function by
  function. Conventions of the embedding:

  \<^item> A Python \<^verbatim>\<open>float\<close> is the real number it denotes. Comparison of floats is then the
    order of the reals. The one float operation that rounds, the product in
    \<^verbatim>\<open>int(detection.confidence * 100)\<close>, is a parameter \<open>fmul\<close> of the functions that
    use it, so that the theorems hold for the IEEE product as well as for the exact one.
    The floats that detections carry are finite; the infinities and NaN appear only as
    results of the product, in the section on the raising step of the summary.
  \<^item> A Python \<^verbatim>\<open>str\<close> is a \<^typ>\<open>string\<close>; case conversion is the ASCII one, and every
    other character has no case.
  \<^item> \<^verbatim>\<open>Optional[str]\<close> is \<^typ>\<open>string option\<close>, with \<^verbatim>\<open>None\<close> as \<^term>\<open>None\<close>.
  \<^item> \<^verbatim>\<open>logger.debug\<close> appends its message to a log that is passed through the functions
    which write to it.
\<close>

type_synonym log = "string list"

definition logger_debug :: "string \<Rightarrow> log \<Rightarrow> log" where
  "logger_debug msg lg = lg @ [msg]"

text \<open>Truth value of an \<^verbatim>\<open>Optional[str]\<close>: \<^verbatim>\<open>None\<close> and \<^verbatim>\<open>""\<close> are false.\<close>

definition truthy :: "string option \<Rightarrow> bool" where
  "truthy v = (case v of None \<Rightarrow> False | Some s \<Rightarrow> s \<noteq> [])"

text \<open>The string that a field holds, read only where the field is true.\<close>

definition str_of :: "string option \<Rightarrow> string" where
  "str_of v = (case v of None \<Rightarrow> [] | Some s \<Rightarrow> s)"

text \<open>Decimal formatting of integers, as an f-string field does it.\<close>

definition digit_char :: "nat \<Rightarrow> char" where
  "digit_char n = ''0123456789'' ! (n mod 10)"

fun str_nat :: "nat \<Rightarrow> string" where
  "str_nat n = (if n < 10 then [digit_char n] else str_nat (n div 10) @ [digit_char (n mod 10)])"

declare str_nat.simps [simp del]

definition str_int :: "int \<Rightarrow> string" where
  "str_int i = (if i < 0 then CHR ''-'' # str_nat (nat (- i)) else str_nat (nat i))"

text \<open>\<^verbatim>\<open>int(x)\<close> on a float: the fractional part is dropped (rounding toward zero).\<close>

definition py_int :: "real \<Rightarrow> int" where
  "py_int x = (if 0 \<le> x then \<lfloor>x\<rfloor> else \<lceil>x\<rceil>)"

text \<open>\<^verbatim>\<open>s.replace(a, b)\<close> for one-character \<open>a\<close> and \<open>b\<close>.\<close>

definition replace :: "char \<Rightarrow> char \<Rightarrow> string \<Rightarrow> string" where
  "replace a b s = map (\<lambda>c. if c = a then b else c) s"

text \<open>
  \<^verbatim>\<open>s.title()\<close>: a cased character is upper-cased when the character before it has no
  case (or there is none), and lower-cased when the character before it is cased.
\<close>

definition lower_letters :: string where
  "lower_letters = ''abcdefghijklmnopqrstuvwxyz''"

definition upper_letters :: string where
  "upper_letters = ''ABCDEFGHIJKLMNOPQRSTUVWXYZ''"

definition to_upper :: "char \<Rightarrow> char" where
  "to_upper c = (case map_of (zip lower_letters upper_letters) c of Some u \<Rightarrow> u | None \<Rightarrow> c)"

definition to_lower :: "char \<Rightarrow> char" where
  "to_lower c = (case map_of (zip upper_letters lower_letters) c of Some l \<Rightarrow> l | None \<Rightarrow> c)"

definition is_cased :: "char \<Rightarrow> bool" where
  "is_cased c = (c \<in> set lower_letters \<or> c \<in> set upper_letters)"

fun title_from :: "bool \<Rightarrow> string \<Rightarrow> string" where
  "title_from previous_is_cased [] = []"
| "title_from previous_is_cased (c # cs) =
     (if previous_is_cased then to_lower c else to_upper c) # title_from (is_cased c) cs"

definition title :: "string \<Rightarrow> string" where
  "title s = title_from False s"

text \<open>\<^verbatim>\<open>sep.join(parts)\<close>.\<close>

fun join :: "string \<Rightarrow> string list \<Rightarrow> string" where
  "join sep [] = []"
| "join sep [p] = p"
| "join sep (p # q # ps) = p @ sep @ join sep (q # ps)"

text \<open>
  \<^verbatim>\<open>sorted(xs, key=key, reverse=True)\<close>. The sort of Python is stable, and with
  \<^verbatim>\<open>reverse=True\<close> it reverses the list, sorts it in ascending order of the key, and
  reverses the result.
\<close>

definition sorted_reverse :: "('a \<Rightarrow> real) \<Rightarrow> 'a list \<Rightarrow> 'a list" where
  "sorted_reverse key xs = rev (sort_key key (rev xs))"

text \<open>\<^verbatim>\<open>d.get(k)\<close> on a \<^verbatim>\<open>Dict[str, Optional[str]]\<close>: \<^verbatim>\<open>None\<close> when the key is missing.\<close>

type_synonym ocr_dict = "string \<rightharpoonup> string option"

definition dict_get :: "ocr_dict \<Rightarrow> string \<Rightarrow> string option" where
  "dict_get m k = (case m k of None \<Rightarrow> None | Some v \<Rightarrow> v)"


section \<open>The Detection schema\<close>

text \<open>
  \<^verbatim>\<open>class Detection(BaseModel)\<close> of \<^verbatim>\<open>backend/app/models/schemas.py\<close>. The field \<^verbatim>\<open>id\<close> is
  \<open>id'\<close> here.
\<close>

record Detection =
  id' :: string
  bbox :: "real list"
  class_name :: string
  confidence :: real
  brand :: "string option"
  product_name :: "string option"
  quantity_text :: "string option"
  raw_text :: "string option"

datatype error = ValidationError

text \<open>
  The constructor call \<^verbatim>\<open>Detection(id=..., ...)\<close> validates its arguments against the
  schema: \<^verbatim>\<open>confidence\<close> is declared \<^verbatim>\<open>Field(..., ge=0, le=1)\<close>, and a value outside that
  range raises a validation error. The other fields carry no constraint beyond their type.
\<close>

definition Detection_init ::
  "string \<Rightarrow> real list \<Rightarrow> string \<Rightarrow> real \<Rightarrow> string option \<Rightarrow> string option \<Rightarrow>
   string option \<Rightarrow> string option \<Rightarrow> error + Detection" where
  "Detection_init i b cn c br pn qt rt =
     (if 0 \<le> c \<and> c \<le> 1
      then Inr \<lparr>id' = i, bbox = b, class_name = cn, confidence = c, brand = br,
                product_name = pn, quantity_text = qt, raw_text = rt\<rparr>
      else Inl ValidationError)"


section \<open>The fusion service\<close>

subsection \<open>clean\_detections\<close>

definition clean_detections :: "Detection list \<Rightarrow> real \<Rightarrow> log \<Rightarrow> Detection list \<times> log" where
  "clean_detections detections min_confidence lg =
     (let filtered = filter (\<lambda>d. confidence d \<ge> min_confidence) detections;
          sorted_detections = sorted_reverse confidence filtered
      in (sorted_detections,
          logger_debug (''Cleaned '' @ str_nat (length detections) @ '' -> '' @
                        str_nat (length sorted_detections) @ '' detections'') lg))"

subsection \<open>build\_summary\<close>

text \<open>The body of the loop, lines 54 to 69: the description of one item.\<close>

definition item_desc :: "Detection \<Rightarrow> string" where
  "item_desc detection =
     (let parts = [];
          parts = (if truthy (brand detection)
                   then parts @ [str_of (brand detection)] else parts);
          parts = (if truthy (product_name detection)
                   then parts @ [str_of (product_name detection)]
                   else if class_name detection \<noteq> []
                   then (let nice_name = title (replace CHR ''_'' CHR '' '' (class_name detection))
                         in parts @ [nice_name])
                   else parts);
          parts = (if truthy (quantity_text detection)
                   then parts @ [str_of (quantity_text detection)] else parts)
      in if parts \<noteq> [] then join '' '' parts else ''Unknown product'')"

text \<open>Line 70: \<^verbatim>\<open>int(detection.confidence * 100)\<close>, with the float product \<open>fmul\<close>.\<close>

definition confidence_pct :: "(real \<Rightarrow> real \<Rightarrow> real) \<Rightarrow> Detection \<Rightarrow> int" where
  "confidence_pct fmul detection = py_int (fmul (confidence detection) 100)"

text \<open>Line 72: the sentence of item \<open>i\<close>.\<close>

definition item_sentence :: "(real \<Rightarrow> real \<Rightarrow> real) \<Rightarrow> nat \<Rightarrow> Detection \<Rightarrow> string" where
  "item_sentence fmul i detection =
     ''Item '' @ str_nat i @ '': '' @ item_desc detection @ ''. Confidence '' @
     str_int (confidence_pct fmul detection) @ '' percent.''"

text \<open>
  The loop \<^verbatim>\<open>for i, detection in enumerate(detections, 1)\<close>: \<open>i\<close> is the number of the next
  item, and each round appends one sentence to \<open>summary_parts\<close>.
\<close>

fun summary_loop ::
  "(real \<Rightarrow> real \<Rightarrow> real) \<Rightarrow> nat \<Rightarrow> Detection list \<Rightarrow> string list \<Rightarrow> string list" where
  "summary_loop fmul i [] summary_parts = summary_parts"
| "summary_loop fmul i (detection # rest) summary_parts =
     summary_loop fmul (Suc i) rest (summary_parts @ [item_sentence fmul i detection])"

definition build_summary ::
  "(real \<Rightarrow> real \<Rightarrow> real) \<Rightarrow> Detection list \<Rightarrow> log \<Rightarrow> string \<times> log" where
  "build_summary fmul detections lg =
     (if detections = [] then (''No products detected.'', lg)
      else
        (let count = length detections;
             summary_parts =
               [''Detected '' @ str_nat count @ '' item'' @ (if count > 1 then ''s'' else '''') @ ''.''];
             summary_parts = summary_loop fmul 1 detections summary_parts;
             summary = join '' '' summary_parts
         in (summary, logger_debug (''Built summary: '' @ summary) lg)))"

subsection \<open>format\_detection\_label\<close>

definition format_detection_label :: "Detection \<Rightarrow> string" where
  "format_detection_label detection =
     (let parts = [];
          parts = (if truthy (brand detection)
                   then parts @ [str_of (brand detection)] else parts);
          parts = (if truthy (product_name detection)
                   then parts @ [str_of (product_name detection)]
                   else if class_name detection \<noteq> []
                   then parts @ [title (replace CHR ''_'' CHR '' '' (class_name detection))]
                   else parts);
          parts = (if truthy (quantity_text detection)
                   then parts @ [''('' @ str_of (quantity_text detection) @ '')''] else parts)
      in if parts \<noteq> [] then join '' '' parts else ''Unknown Product'')"

subsection \<open>merge\_ocr\_with\_detection\<close>

definition merge_ocr_with_detection :: "Detection \<Rightarrow> ocr_dict \<Rightarrow> error + Detection" where
  "merge_ocr_with_detection detection ocr_result =
     Detection_init (id' detection) (bbox detection) (class_name detection)
       (confidence detection)
       (dict_get ocr_result ''brand'') (dict_get ocr_result ''product_name'')
       (dict_get ocr_result ''quantity_text'') (dict_get ocr_result ''raw_text'')"


section \<open>Descriptions as the specification words them\<close>

text \<open>
  The specification builds a description from the parts that are present, in a fixed
  order. A text field is present when it holds a usable, that is non-empty, string; the
  class name, which every detection has, counts when it is not empty. \<open>wrap\<close> is what is
  done to the quantity text: nothing in a summary, parentheses in a label.
\<close>

definition part_of :: "string option \<Rightarrow> string list" where
  "part_of v = (case v of None \<Rightarrow> [] | Some s \<Rightarrow> if s = [] then [] else [s])"

definition name_part :: "Detection \<Rightarrow> string list" where
  "name_part d =
     (if part_of (product_name d) \<noteq> [] then part_of (product_name d)
      else if class_name d \<noteq> [] then [title (replace CHR ''_'' CHR '' '' (class_name d))]
      else [])"

definition selected_parts :: "(string \<Rightarrow> string) \<Rightarrow> Detection \<Rightarrow> string list" where
  "selected_parts wrap d = part_of (brand d) @ name_part d @ map wrap (part_of (quantity_text d))"

fun space_separated :: "string list \<Rightarrow> string" where
  "space_separated [] = []"
| "space_separated (p # ps) = p @ concat (map (\<lambda>q. CHR '' '' # q) ps)"

definition described :: "string \<Rightarrow> string list \<Rightarrow> string" where
  "described fallback ps = (if ps = [] then fallback else space_separated ps)"

text \<open>The detections used as examples.\<close>

definition amul :: Detection where
  "amul = \<lparr>id' = ''det-1'', bbox = [10, 10, 40, 50], class_name = ''milk_pack'',
           confidence = 92 / 100, brand = Some ''Amul'', product_name = Some ''Full Cream Milk'',
           quantity_text = Some ''500ml'', raw_text = Some ''Amul Full Cream Milk 500ml''\<rparr>"

definition biscuit :: Detection where
  "biscuit = \<lparr>id' = ''det-2'', bbox = [50, 20, 90, 60], class_name = ''biscuit_pack'',
              confidence = 929 / 1000, brand = None, product_name = None,
              quantity_text = None, raw_text = None\<rparr>"

definition nameless :: Detection where
  "nameless = \<lparr>id' = ''det-3'', bbox = [], class_name = [], confidence = 3 / 2,
               brand = Some [], product_name = None, quantity_text = Some [],
               raw_text = None\<rparr>"


section \<open>The raising step of the summary\<close>













section \<open>Facts about the primitives\<close>

lemmas py_eval = title_def replace_def to_upper_def to_lower_def is_cased_def lower_letters_def
  upper_letters_def str_nat.simps digit_char_def str_int_def py_int_def truthy_def str_of_def
  logger_debug_def dict_get_def

lemma join_Cons: "join sep (p # ps) = p @ concat (map (\<lambda>q. sep @ q) ps)"
  by (induction ps arbitrary: p) simp_all

lemma join_space: "join '' '' ps = space_separated ps"
  by (cases ps) (simp_all add: join_Cons)

lemma py_int_floor: "0 \<le> x \<Longrightarrow> py_int x = \<lfloor>x\<rfloor>"
  by (simp add: py_int_def)

lemma py_int_in_range: "of_int n \<le> x \<Longrightarrow> x < of_int n + 1 \<Longrightarrow> 0 \<le> n \<Longrightarrow> py_int x = n"
proof -
  assume a: "of_int n \<le> x" "x < of_int n + 1" "0 \<le> n"
  then have "0 \<le> x" by linarith
  moreover have "\<lfloor>x\<rfloor> = n" using a by (simp add: floor_unique)
  ultimately show ?thesis by (simp add: py_int_def)
qed

lemma str_int_nonneg: "0 \<le> i \<Longrightarrow> str_int i = str_nat (nat i)"
  by (simp add: str_int_def)

text \<open>The reversed sort keeps every element, orders them by decreasing key and is stable.\<close>

lemma mset_sorted_reverse: "mset (sorted_reverse key xs) = mset xs"
  by (simp add: sorted_reverse_def)

lemma sorted_reverse_descending:
  "sorted_wrt (\<lambda>a b. key a \<ge> key b) (sorted_reverse key xs)"
proof -
  have "sorted (map key (sort_key key (rev xs)))"
    by (rule sorted_sort_key)
  then have "sorted_wrt (\<lambda>a b. key a \<le> key b) (sort_key key (rev xs))"
    by (simp add: sorted_map)
  then show ?thesis
    by (simp add: sorted_reverse_def sorted_wrt_rev)
qed

lemma sorted_reverse_stable:
  "filter (\<lambda>y. key y = c) (sorted_reverse key xs) = filter (\<lambda>y. key y = c) xs"
proof -
  have "filter (\<lambda>y. key y = c) (sorted_reverse key xs)
      = rev (filter (\<lambda>y. key y = c) (sort_key key (rev xs)))"
    by (simp add: sorted_reverse_def rev_filter)
  also have "\<dots> = rev (filter (\<lambda>y. key y = c) (rev xs))"
    by (simp only: sort_key_stable)
  also have "\<dots> = filter (\<lambda>y. key y = c) xs"
    by (simp add: rev_filter)
  finally show ?thesis .
qed

text \<open>The loop of \<^verbatim>\<open>build_summary\<close> appends the sentences of the items, numbered from \<open>i\<close>.\<close>

lemma summary_loop_eq:
  "summary_loop fmul i ds acc =
     acc @ map (\<lambda>k. item_sentence fmul (i + k) (ds ! k)) [0..<length ds]"
proof (induction ds arbitrary: i acc)
  case Nil
  then show ?case by simp
next
  case (Cons d ds)
  show ?case
    by (simp add: Cons.IH map_upt_Suc del: upt_Suc)
qed

lemma build_summary_sentences:
  "ds \<noteq> [] \<Longrightarrow>
   fst (build_summary fmul ds lg) =
     (''Detected '' @ str_nat (length ds) @ '' item'' @ (if length ds > 1 then ''s'' else '''') @ ''.'') @
     concat (map (\<lambda>k. '' '' @ item_sentence fmul (Suc k) (ds ! k)) [0..<length ds])"
  by (simp add: build_summary_def Let_def summary_loop_eq join_Cons comp_def)

text \<open>The source and the specification select the same parts.\<close>

lemma item_desc_parts: "item_desc d = described ''Unknown product'' (selected_parts (\<lambda>q. q) d)"
  by (cases "brand d"; cases "product_name d"; cases "quantity_text d")
    (simp_all add: item_desc_def described_def selected_parts_def name_part_def part_of_def
      truthy_def str_of_def join_space Let_def)

lemma label_parts:
  "format_detection_label d =
     described ''Unknown Product'' (selected_parts (\<lambda>q. ''('' @ q @ '')'') d)"
  by (cases "brand d"; cases "product_name d"; cases "quantity_text d")
    (simp_all add: format_detection_label_def described_def selected_parts_def name_part_def
      part_of_def truthy_def str_of_def join_space Let_def)










section \<open>Filtering and ranking\<close>

text \<open>
  C1. For every list \<open>L\<close> of detections and every floor \<open>t\<close>, \<^verbatim>\<open>clean_detections\<close> returns
  exactly the elements of \<open>L\<close> whose confidence is at least \<open>t\<close> (as a multiset, so with
  their multiplicities), ordered by decreasing confidence, and for every confidence value
  \<open>c\<close> the elements of that confidence stand in the result in the order they have in \<open>L\<close>.
  The source builds the result with a list comprehension and \<^verbatim>\<open>sorted\<close>, which both make new
  lists: the argument is a value here, and is not written to.
\<close>

theorem clean_detections_filters_and_ranks:
  "mset (fst (clean_detections L t lg)) = mset (filter (\<lambda>d. t \<le> confidence d) L) \<and>
   sorted_wrt (\<lambda>a b. confidence a \<ge> confidence b) (fst (clean_detections L t lg)) \<and>
   (\<forall>c. filter (\<lambda>d. confidence d = c) (fst (clean_detections L t lg)) =
        filter (\<lambda>d. confidence d = c) (filter (\<lambda>d. t \<le> confidence d) L))"
  by (simp add: clean_detections_def Let_def mset_sorted_reverse sorted_reverse_descending
      sorted_reverse_stable)

text \<open>Two pairs of equal confidence keep their order; the detection below the floor is dropped.\<close>

lemma clean_detections_example:
  "map id' (fst (clean_detections
      [amul\<lparr>id' := ''a'', confidence := 1 / 2\<rparr>, amul\<lparr>id' := ''b'', confidence := 9 / 10\<rparr>,
       amul\<lparr>id' := ''c'', confidence := 1 / 2\<rparr>, amul\<lparr>id' := ''d'', confidence := 1 / 10\<rparr>,
       amul\<lparr>id' := ''e'', confidence := 9 / 10\<rparr>] (1 / 4) [])) = [''b'', ''e'', ''a'', ''c'']"
  by (simp add: clean_detections_def sorted_reverse_def amul_def)


section \<open>Merging an OCR result\<close>

text \<open>
  C2. For every detection \<open>d\<close> of the schema (its confidence is in \<open>[0, 1]\<close>) and every OCR
  result, \<^verbatim>\<open>merge_ocr_with_detection\<close> returns a detection with the \<^verbatim>\<open>id\<close>, \<^verbatim>\<open>bbox\<close>,
  \<^verbatim>\<open>class_name\<close> and \<^verbatim>\<open>confidence\<close> of \<open>d\<close>, and whose four text fields are what the OCR result
  holds under the four keys: nothing of the text fields of \<open>d\<close> is kept, so that a field
  set in \<open>d\<close> and absent in the OCR result is absent in the result.
\<close>

theorem merge_replaces_text_fields:
  assumes "0 \<le> confidence d" and "confidence d \<le> 1"
  shows "\<exists>d'. merge_ocr_with_detection d ocr = Inr d' \<and>
           id' d' = id' d \<and> bbox d' = bbox d \<and> class_name d' = class_name d \<and>
           confidence d' = confidence d \<and>
           brand d' = dict_get ocr ''brand'' \<and>
           product_name d' = dict_get ocr ''product_name'' \<and>
           quantity_text d' = dict_get ocr ''quantity_text'' \<and>
           raw_text d' = dict_get ocr ''raw_text''"
  using assms by (simp add: merge_ocr_with_detection_def Detection_init_def)

theorem merge_replaces_text_fields_witness:
  "0 \<le> confidence amul \<and> confidence amul \<le> 1 \<and>
   merge_ocr_with_detection amul [''brand'' \<mapsto> Some ''Nestle'', ''quantity_text'' \<mapsto> None] =
     Inr \<lparr>id' = ''det-1'', bbox = [10, 10, 40, 50], class_name = ''milk_pack'',
          confidence = 92 / 100, brand = Some ''Nestle'', product_name = None,
          quantity_text = None, raw_text = None\<rparr>"
  using merge_replaces_text_fields
    [of amul "[''brand'' \<mapsto> Some ''Nestle'', ''quantity_text'' \<mapsto> None]"]
  by (auto simp add: amul_def dict_get_def)


section \<open>The summary\<close>

text \<open>
  C3. The description of a detection is the space-separated concatenation of its present
  parts, in this order: the brand; the product name, or else the class name with
  underscores replaced by spaces and title-cased; the quantity text. With no part present
  it is \<^verbatim>\<open>Unknown product\<close>. The summary of the single detection of the specification
  (confidence 0.92, Amul, Full Cream Milk, 500ml, milk\_pack) is the sentence the
  specification gives, for every float product that puts \<open>0.92 * 100\<close> in \<open>[92, 93)\<close>, as
  the IEEE product and the exact one do.
\<close>

theorem description_parts_in_order:
  "item_desc d = described ''Unknown product'' (selected_parts (\<lambda>q. q) d) \<and>
   (92 \<le> fmul (92 / 100) 100 \<and> fmul (92 / 100) 100 < 93 \<longrightarrow>
    fst (build_summary fmul
          [\<lparr>id' = i, bbox = b, class_name = ''milk_pack'', confidence = 92 / 100,
            brand = Some ''Amul'', product_name = Some ''Full Cream Milk'',
            quantity_text = Some ''500ml'', raw_text = r\<rparr>] lg) =
      ''Detected 1 item. Item 1: Amul Full Cream Milk 500ml. Confidence 92 percent.'')"
proof (intro conjI impI)
  show "item_desc d = described ''Unknown product'' (selected_parts (\<lambda>q. q) d)"
    by (rule item_desc_parts)
next
  assume h: "92 \<le> fmul (92 / 100) 100 \<and> fmul (92 / 100) 100 < 93"
  have "py_int (fmul (92 / 100) 100) = 92"
    using h by (intro py_int_in_range) simp_all
  then show "fst (build_summary fmul
          [\<lparr>id' = i, bbox = b, class_name = ''milk_pack'', confidence = 92 / 100,
            brand = Some ''Amul'', product_name = Some ''Full Cream Milk'',
            quantity_text = Some ''500ml'', raw_text = r\<rparr>] lg) =
      ''Detected 1 item. Item 1: Amul Full Cream Milk 500ml. Confidence 92 percent.''"
    by (simp add: build_summary_def item_sentence_def item_desc_def confidence_pct_def Let_def
        truthy_def str_of_def str_int_def str_nat.simps digit_char_def)
qed

theorem description_parts_in_order_witness:
  "item_desc biscuit = ''Biscuit Pack'' \<and>
   item_desc nameless = ''Unknown product'' \<and>
   item_desc amul = ''Amul Full Cream Milk 500ml'' \<and>
   fst (build_summary (*) [amul] []) =
     ''Detected 1 item. Item 1: Amul Full Cream Milk 500ml. Confidence 92 percent.''"
  using description_parts_in_order [of biscuit "(*)" "''det-1''" "[10, 10, 40, 50]"
      "Some ''Amul Full Cream Milk 500ml''" "[]"]
    description_parts_in_order [of nameless "(*)" "''det-1''" "[10, 10, 40, 50]"
      "Some ''Amul Full Cream Milk 500ml''" "[]"]
    description_parts_in_order [of amul "(*)" "''det-1''" "[10, 10, 40, 50]"
      "Some ''Amul Full Cream Milk 500ml''" "[]"]
  by (simp add: amul_def biscuit_def nameless_def described_def selected_parts_def name_part_def
      part_of_def title_def replace_def to_upper_def to_lower_def is_cased_def
      lower_letters_def upper_letters_def)

text \<open>
  C4. The percentage printed in the sentence of an item is \<^verbatim>\<open>int(confidence * 100)\<close>: for
  a product that is not negative, as it is for a confidence of the schema, the sentence
  number \<open>k + 1\<close> that the loop builds prints the floor of the product, which is at most the
  product and more than the product minus one. A confidence of 0.929 prints 92, where
  rounding to the nearest integer gives 93.
\<close>

theorem confidence_pct_truncates:
  assumes "k < length ds" and "0 \<le> fmul (confidence (ds ! k)) 100"
  shows "summary_loop fmul 1 ds [h] ! Suc k =
           ''Item '' @ str_nat (Suc k) @ '': '' @ item_desc (ds ! k) @ ''. Confidence '' @
           str_nat (nat \<lfloor>fmul (confidence (ds ! k)) 100\<rfloor>) @ '' percent.'' \<and>
         of_int (confidence_pct fmul (ds ! k)) \<le> fmul (confidence (ds ! k)) 100 \<and>
         fmul (confidence (ds ! k)) 100 < of_int (confidence_pct fmul (ds ! k)) + 1"
proof -
  have pct: "confidence_pct fmul (ds ! k) = \<lfloor>fmul (confidence (ds ! k)) 100\<rfloor>"
    using assms(2) by (simp add: confidence_pct_def py_int_floor)
  have nn: "0 \<le> \<lfloor>fmul (confidence (ds ! k)) 100\<rfloor>"
    using assms(2) by simp
  have "summary_loop fmul 1 ds [h] ! Suc k = item_sentence fmul (Suc k) (ds ! k)"
    using assms(1) by (simp add: summary_loop_eq)
  then show ?thesis
    using nn by (simp add: item_sentence_def pct str_int_nonneg)
qed

theorem confidence_pct_truncates_witness:
  "(0::nat) < length [biscuit] \<and> (0::real) \<le> confidence ([biscuit] ! 0) * 100 \<and>
   summary_loop (*) 1 [biscuit] [''Detected 1 item.''] ! Suc 0 =
     ''Item 1: Biscuit Pack. Confidence 92 percent.'' \<and>
   confidence_pct (*) biscuit = 92 \<and> round (confidence biscuit * 100) = 93"
  using confidence_pct_truncates [of 0 "[biscuit]" "(*)" "''Detected 1 item.''"]
  by (simp add: biscuit_def item_desc_def confidence_pct_def py_eval Let_def round_def)

text \<open>
  C5. \<^verbatim>\<open>build_summary\<close> of the empty list of detections returns exactly the string
  \<^verbatim>\<open>No products detected.\<close> (and writes nothing to the log).
\<close>

theorem build_summary_empty:
  "build_summary fmul [] lg = (''No products detected.'', lg)"
  by (simp add: build_summary_def)

text \<open>
  C6. For a non-empty list of \<open>N\<close> detections the summary is the header
  \<^verbatim>\<open>Detected N item.\<close>, with \<^verbatim>\<open>items\<close> exactly when \<open>N > 1\<close>, followed for each detection, in
  the order of the list, by one space and the sentence of the detection, numbered from 1.
\<close>

theorem summary_header_and_sentences:
  assumes "ds \<noteq> []"
  shows "fst (build_summary fmul ds lg) =
     (''Detected '' @ str_nat (length ds) @ '' item'' @ (if length ds > 1 then ''s'' else '''') @ ''.'') @
     concat (map (\<lambda>k. '' '' @ (''Item '' @ str_nat (Suc k) @ '': '' @ item_desc (ds ! k) @
                 ''. Confidence '' @ str_int (confidence_pct fmul (ds ! k)) @ '' percent.''))
               [0..<length ds])"
  using build_summary_sentences [OF assms, of fmul lg]
  by (simp add: item_sentence_def)

theorem summary_header_and_sentences_witness:
  "[amul, biscuit, nameless] \<noteq> [] \<and>
   fst (build_summary (*) [amul, biscuit, nameless] []) =
     ''Detected 3 items. Item 1: Amul Full Cream Milk 500ml. Confidence 92 percent. Item 2: Biscuit Pack. Confidence 92 percent. Item 3: Unknown product. Confidence 150 percent.''"
  using summary_header_and_sentences [of "[amul, biscuit, nameless]" "(*)" "[]"]
  by (simp add: amul_def biscuit_def nameless_def item_desc_def confidence_pct_def py_eval Let_def
      upt_rec [of 0] upt_rec [of 1] upt_rec [of 2])


section \<open>The label\<close>

text \<open>
  C7. \<^verbatim>\<open>format_detection_label\<close> selects the parts that the description of the summary
  selects, with the quantity text, when present, in parentheses; with no part present the
  label is \<^verbatim>\<open>Unknown Product\<close>, which is not the \<^verbatim>\<open>Unknown product\<close> of the summary.
\<close>

theorem label_wraps_quantity:
  "format_detection_label d =
     described ''Unknown Product'' (selected_parts (\<lambda>q. ''('' @ q @ '')'') d) \<and>
   item_desc d = described ''Unknown product'' (selected_parts (\<lambda>q. q) d) \<and>
   ''Unknown Product'' \<noteq> ''Unknown product''"
  by (simp add: label_parts item_desc_parts)

theorem label_wraps_quantity_witness:
  "format_detection_label amul = ''Amul Full Cream Milk (500ml)'' \<and>
   item_desc amul = ''Amul Full Cream Milk 500ml'' \<and>
   format_detection_label biscuit = ''Biscuit Pack'' \<and>
   format_detection_label nameless = ''Unknown Product'' \<and>
   item_desc nameless = ''Unknown product''"
  using label_wraps_quantity [of amul] label_wraps_quantity [of biscuit]
    label_wraps_quantity [of nameless]
  by (simp add: amul_def biscuit_def nameless_def described_def selected_parts_def name_part_def
      part_of_def title_def replace_def to_upper_def to_lower_def is_cased_def
      lower_letters_def upper_letters_def)


section \<open>Where the operations raise\<close>





section \<open>Empty strings\<close>

text \<open>
  C10. In the description and in the label, a brand, product name or quantity text that is
  the empty string is treated as an absent one, and a detection with an empty class name
  and no other part is described as \<^verbatim>\<open>Unknown product\<close> and labelled \<^verbatim>\<open>Unknown Product\<close>.
\<close>

theorem empty_string_is_absent:
  "item_desc (d\<lparr>brand := Some []\<rparr>) = item_desc (d\<lparr>brand := None\<rparr>) \<and>
   item_desc (d\<lparr>product_name := Some []\<rparr>) = item_desc (d\<lparr>product_name := None\<rparr>) \<and>
   item_desc (d\<lparr>quantity_text := Some []\<rparr>) = item_desc (d\<lparr>quantity_text := None\<rparr>) \<and>
   format_detection_label (d\<lparr>brand := Some []\<rparr>) = format_detection_label (d\<lparr>brand := None\<rparr>) \<and>
   format_detection_label (d\<lparr>product_name := Some []\<rparr>) =
     format_detection_label (d\<lparr>product_name := None\<rparr>) \<and>
   format_detection_label (d\<lparr>quantity_text := Some []\<rparr>) =
     format_detection_label (d\<lparr>quantity_text := None\<rparr>) \<and>
   (class_name d = [] \<and> \<not> truthy (brand d) \<and> \<not> truthy (product_name d) \<and>
    \<not> truthy (quantity_text d) \<longrightarrow>
      item_desc d = ''Unknown product'' \<and> format_detection_label d = ''Unknown Product'')"
  by (simp add: item_desc_def format_detection_label_def Let_def truthy_def str_of_def)

theorem empty_string_is_absent_witness:
  "item_desc (amul\<lparr>brand := Some []\<rparr>) = ''Full Cream Milk 500ml'' \<and>
   item_desc (amul\<lparr>brand := None\<rparr>) = ''Full Cream Milk 500ml'' \<and>
   format_detection_label (amul\<lparr>quantity_text := Some []\<rparr>) = ''Amul Full Cream Milk'' \<and>
   format_detection_label (amul\<lparr>quantity_text := None\<rparr>) = ''Amul Full Cream Milk'' \<and>
   item_desc (amul\<lparr>product_name := Some []\<rparr>) = ''Amul Milk Pack 500ml'' \<and>
   class_name nameless = [] \<and> \<not> truthy (brand nameless) \<and> \<not> truthy (product_name nameless) \<and>
   \<not> truthy (quantity_text nameless) \<and>
   item_desc nameless = ''Unknown product'' \<and> format_detection_label nameless = ''Unknown Product''"
  using empty_string_is_absent [of amul] empty_string_is_absent [of nameless]
  by (simp add: amul_def nameless_def item_desc_def format_detection_label_def Let_def py_eval)

end
